theory Spec2Isabelle
  imports Complex_Main
begin

section \<open>Points and segments\<close>

text \<open>
  The script \<^verbatim>\<open>check_intersections.py\<close> works on Python floats. They are modelled as
  the reals: every theorem below is about the arithmetic the script writes down, read
  exactly, and says nothing about rounding, overflow to infinity or NaN.
  A point is the pair (lon, lat); a segment is a pair of points.
\<close>

type_synonym Point = "real \<times> real"
type_synonym LineSegment = "Point \<times> Point"

section \<open>Geometry engine\<close>

text \<open>\<^verbatim>\<open>cross_product(o, a, b)\<close>; the first argument is called \<open>p0\<close> here.\<close>

definition cross_product :: "Point \<Rightarrow> Point \<Rightarrow> Point \<Rightarrow> real" where
  "cross_product p0 a b =
     (fst a - fst p0) * (snd b - snd p0) - (snd a - snd p0) * (fst b - fst p0)"

definition on_segment :: "Point \<Rightarrow> Point \<Rightarrow> Point \<Rightarrow> bool" where
  "on_segment p q r \<longleftrightarrow>
     fst q \<le> max (fst p) (fst r) \<and>
     fst q \<ge> min (fst p) (fst r) \<and>
     snd q \<le> max (snd p) (snd r) \<and>
     snd q \<ge> min (snd p) (snd r)"

definition segments_intersect :: "LineSegment \<Rightarrow> LineSegment \<Rightarrow> bool" where
  "segments_intersect seg1 seg2 =
     (let (a, b) = seg1;
          (c, d) = seg2;
          o1 = cross_product a c d;
          o2 = cross_product b c d;
          o3 = cross_product c a b;
          o4 = cross_product d a b
      in if o1 * o2 < 0 \<and> o3 * o4 < 0 then True
         else if o1 = 0 \<and> on_segment c a d then True
         else if o2 = 0 \<and> on_segment c b d then True
         else if o3 = 0 \<and> on_segment a c b then True
         else if o4 = 0 \<and> on_segment a d b then True
         else False)"

definition distance :: "Point \<Rightarrow> Point \<Rightarrow> real" where
  "distance p1 p2 =
     (let dlon = fst p2 - fst p1;
          dlat = snd p2 - snd p1
      in sqrt (dlon * dlon + dlat * dlat))"

definition point_to_segment_distance :: "Point \<Rightarrow> LineSegment \<Rightarrow> real" where
  "point_to_segment_distance point segment =
     (let (p1, p2) = segment;
          A = fst point - fst p1;
          B = snd point - snd p1;
          C = fst p2 - fst p1;
          D = snd p2 - snd p1;
          dot = A * C + B * D;
          len_sq = C * C + D * D
      in if len_sq = 0 then distance point p1
         else
           let param = dot / len_sq;
               (xx, yy) =
                 (if param < 0 then p1
                  else if param > 1 then p2
                  else (fst p1 + param * C, snd p1 + param * D));
               dx = fst point - xx;
               dy = snd point - yy
           in sqrt (dx * dx + dy * dy))"

section \<open>Loaded JSON and the Python operations the script applies to it\<close>

text \<open>
  What \<^verbatim>\<open>json.load\<close> returns: \<open>None\<close>, a bool, a number, a string, a list or a dict.
  A dict is the list of its items in insertion order (a loaded dict has each key once).
\<close>

datatype json =
    JNull
  | JBool bool
  | JNum real
  | JStr string
  | JArr "json list"
  | JObj "(string \<times> json) list"

text \<open>
  The exceptions the script can meet. \<open>OSError\<close> and \<open>JSONDecodeError\<close> come from
  \<^verbatim>\<open>open\<close> and \<^verbatim>\<open>json.load\<close>; the other three from subscripting, iterating and
  arithmetic on the loaded value. All of them are subclasses of \<^verbatim>\<open>Exception\<close>.
\<close>

datatype error =
    OSError string
  | JSONDecodeError string
  | KeyError json
  | TypeError
  | IndexError

text \<open>Sequencing of two steps, the first of which may raise.\<close>

definition and_then :: "error + 'a \<Rightarrow> ('a \<Rightarrow> error + 'b) \<Rightarrow> error + 'b" where
  "and_then m f = (case m of Inl e \<Rightarrow> Inl e | Inr v \<Rightarrow> f v)"

text \<open>A \<^verbatim>\<open>for\<close> loop whose body may raise: the first exception ends the loop.\<close>

fun for_each :: "('a \<Rightarrow> 's \<Rightarrow> error + 's) \<Rightarrow> 'a list \<Rightarrow> 's \<Rightarrow> error + 's" where
  "for_each body [] s = Inr s"
| "for_each body (x # xs) s =
     (case body x s of Inl e \<Rightarrow> Inl e | Inr s' \<Rightarrow> for_each body xs s')"

text \<open>\<^verbatim>\<open>obj['key']\<close> with a string key.\<close>

fun py_getitem_key :: "json \<Rightarrow> string \<Rightarrow> error + json" where
  "py_getitem_key (JObj items) k =
     (case map_of items k of None \<Rightarrow> Inl (KeyError (JStr k)) | Some v \<Rightarrow> Inr v)"
| "py_getitem_key _ k = Inl TypeError"

text \<open>\<^verbatim>\<open>obj[i]\<close> with a non-negative integer index.\<close>

fun py_getitem_index :: "json \<Rightarrow> nat \<Rightarrow> error + json" where
  "py_getitem_index (JArr xs) i = (if i < length xs then Inr (xs ! i) else Inl IndexError)"
| "py_getitem_index (JStr s) i = (if i < length s then Inr (JStr [s ! i]) else Inl IndexError)"
| "py_getitem_index (JObj items) i = Inl (KeyError (JNum (real i)))"
| "py_getitem_index _ i = Inl TypeError"

text \<open>
  \<^verbatim>\<open>for x in obj\<close>: a list yields its elements, a dict its keys, a string its
  characters; anything else is not iterable.
\<close>

fun py_iter :: "json \<Rightarrow> error + json list" where
  "py_iter (JArr xs) = Inr xs"
| "py_iter (JObj items) = Inr (map (\<lambda>kv. JStr (fst kv)) items)"
| "py_iter (JStr s) = Inr (map (\<lambda>c. JStr [c]) s)"
| "py_iter _ = Inl TypeError"

fun py_len :: "json \<Rightarrow> error + nat" where
  "py_len (JArr xs) = Inr (length xs)"
| "py_len (JObj items) = Inr (length items)"
| "py_len (JStr s) = Inr (length s)"
| "py_len _ = Inl TypeError"

text \<open>
  A loaded value as an operand of float arithmetic (\<^verbatim>\<open>x - 12.07\<close>): numbers are
  themselves, \<^verbatim>\<open>True\<close> and \<^verbatim>\<open>False\<close> are 1 and 0, everything else raises TypeError.
\<close>

fun py_float :: "json \<Rightarrow> error + real" where
  "py_float (JNum x) = Inr x"
| "py_float (JBool b) = Inr (if b then 1 else 0)"
| "py_float _ = Inl TypeError"

text \<open>
  A value inside an f-string (\<^verbatim>\<open>f"{x}"\<close>): a string is itself; for every other value
  Python's builtin \<^verbatim>\<open>str\<close> decides, which is the parameter \<open>fmt\<close>.
\<close>

fun py_str :: "(json \<Rightarrow> string) \<Rightarrow> json \<Rightarrow> string" where
  "py_str fmt (JStr s) = s"
| "py_str fmt v = fmt v"

text \<open>Decimal digits of a non-negative integer, as \<^verbatim>\<open>str\<close> prints it.\<close>

definition digit_char :: "nat \<Rightarrow> char" where
  "digit_char n = char_of (48 + n)"

function string_of_nat :: "nat \<Rightarrow> string" where
  "string_of_nat n =
     (if n < 10 then [digit_char n]
      else string_of_nat (n div 10) @ [digit_char (n mod 10)])"
  by pat_completeness auto
termination
  by (relation "measure id") auto

declare string_of_nat.simps [simp del]

text \<open>
  A loaded value as a dict key. Keys are compared by value: \<^verbatim>\<open>1\<close>, \<^verbatim>\<open>1.0\<close> and
  \<^verbatim>\<open>True\<close> are the same key. Lists and dicts are unhashable.
\<close>

datatype pykey = KNone | KNum real | KStr string

fun dict_key :: "json \<Rightarrow> error + pykey" where
  "dict_key JNull = Inr KNone"
| "dict_key (JBool b) = Inr (KNum (if b then 1 else 0))"
| "dict_key (JNum x) = Inr (KNum x)"
| "dict_key (JStr s) = Inr (KStr s)"
| "dict_key _ = Inl TypeError"

text \<open>
  \<^verbatim>\<open>d[key] = value\<close> on a dict kept as its item list: an existing key keeps its
  place and takes the new value, a new key goes to the end.
\<close>

fun dict_set :: "'k \<Rightarrow> 'v \<Rightarrow> ('k \<times> 'v) list \<Rightarrow> ('k \<times> 'v) list" where
  "dict_set k v [] = [(k, v)]"
| "dict_set k v (item # items) =
     (if fst item = k then (k, v) # items else item # dict_set k v items)"

section \<open>Records built by the analysis\<close>

record cable_ref =
  cableName :: json
  cableId :: json

record intersection = cable_ref +
  segmentIndex :: nat
  trajectorySegment :: nat

record nearby = cable_ref +
  minDistance :: real
  closestPoint :: Point

record result =
  intersections :: "intersection list"
  nearbyCables :: "nearby list"

section \<open>The hardcoded trajectory\<close>

definition trajectory_points :: "Point list" where
  "trajectory_points =
     [(12.0771658, 54.3374597),
      (11.9667175, 54.3310199),
      (11.8415427, 54.3353132)]"

definition trajectory_segments :: "LineSegment list" where
  "trajectory_segments =
     [(trajectory_points ! 0, trajectory_points ! 1),
      (trajectory_points ! 1, trajectory_points ! 2)]"

section \<open>The analysis loops of \<^verbatim>\<open>check_intersections\<close> (lines 124 to 165)\<close>

text \<open>Lines 146 to 153: the cable segment against each trajectory segment.\<close>

definition check_trajectory_segments ::
  "json \<Rightarrow> json \<Rightarrow> nat \<Rightarrow> LineSegment \<Rightarrow> intersection list \<Rightarrow> intersection list" where
  "check_trajectory_segments cable_name cable_id seg_idx cable_segment found =
     fold (\<lambda>(traj_idx, traj_segment) acc.
             if segments_intersect traj_segment cable_segment
             then acc @ [\<lparr>cableName = cable_name, cableId = cable_id,
                          segmentIndex = seg_idx, trajectorySegment = traj_idx + 1\<rparr>]
             else acc)
          (enumerate 0 trajectory_segments) found"

text \<open>Lines 156 to 165: each trajectory point against the cable segment.\<close>

definition check_trajectory_points ::
  "json \<Rightarrow> json \<Rightarrow> LineSegment \<Rightarrow> nearby list \<Rightarrow> nearby list" where
  "check_trajectory_points cable_name cable_id cable_segment found =
     fold (\<lambda>traj_point acc.
             let dist = point_to_segment_distance traj_point cable_segment
             in if dist < 0.05
                then acc @ [\<lparr>cableName = cable_name, cableId = cable_id,
                             minDistance = dist, closestPoint = traj_point\<rparr>]
                else acc)
          trajectory_points found"

text \<open>
  Lines 140 to 143: \<^verbatim>\<open>line_string[i][k]\<close>, and the tuple of the four subscripts.
  The tuple holds the loaded values as they are; the first \<^verbatim>\<open>cross_product\<close> call
  subtracts floats from all four, which is where a value that is not a number raises
  TypeError, before anything is appended for the segment.
\<close>

definition coordinate :: "json \<Rightarrow> nat \<Rightarrow> nat \<Rightarrow> error + json" where
  "coordinate line_string i k =
     and_then (py_getitem_index line_string i) (\<lambda>position. py_getitem_index position k)"

definition cable_segment_at :: "json \<Rightarrow> nat \<Rightarrow> error + LineSegment" where
  "cable_segment_at line_string i =
     and_then (coordinate line_string i 0) (\<lambda>x1.
     and_then (coordinate line_string i 1) (\<lambda>y1.
     and_then (coordinate line_string (i + 1) 0) (\<lambda>x2.
     and_then (coordinate line_string (i + 1) 1) (\<lambda>y2.
     and_then (py_float x1) (\<lambda>fx1.
     and_then (py_float y2) (\<lambda>fy2.
     and_then (py_float y1) (\<lambda>fy1.
     and_then (py_float x2) (\<lambda>fx2.
       Inr ((fx1, fy1), (fx2, fy2))))))))))"

text \<open>The body of the loop over \<^verbatim>\<open>i\<close> (lines 139 to 165).\<close>

definition process_segment ::
  "json \<Rightarrow> json \<Rightarrow> nat \<Rightarrow> json \<Rightarrow> nat \<Rightarrow>
   intersection list \<times> nearby list \<Rightarrow> error + intersection list \<times> nearby list" where
  "process_segment cable_name cable_id seg_idx line_string i acc =
     and_then (cable_segment_at line_string i) (\<lambda>cable_segment.
       Inr (check_trajectory_segments cable_name cable_id seg_idx cable_segment (fst acc),
            check_trajectory_points cable_name cable_id cable_segment (snd acc)))"

text \<open>
  The body of the loop over the line-strings (lines 137 to 165).
  \<^verbatim>\<open>range(len(line_string) - 1)\<close> is empty for an empty line-string, as
  \<open>[0..<0 - 1]\<close> is.
\<close>

definition process_line_string ::
  "json \<Rightarrow> json \<Rightarrow> nat \<times> json \<Rightarrow>
   intersection list \<times> nearby list \<Rightarrow> error + intersection list \<times> nearby list" where
  "process_line_string cable_name cable_id indexed acc =
     (let (seg_idx, line_string) = indexed
      in and_then (py_len line_string) (\<lambda>n.
           for_each (process_segment cable_name cable_id seg_idx line_string) [0..<n - 1] acc))"

text \<open>The body of the loop over the features (lines 128 to 165).\<close>

definition process_feature ::
  "json \<Rightarrow> intersection list \<times> nearby list \<Rightarrow> error + intersection list \<times> nearby list" where
  "process_feature feature acc =
     and_then (py_getitem_key feature ''properties'') (\<lambda>properties.
     and_then (py_getitem_key properties ''name'') (\<lambda>cable_name.
     and_then (py_getitem_key feature ''properties'') (\<lambda>properties'.
     and_then (py_getitem_key properties' ''id'') (\<lambda>cable_id.
     and_then (py_getitem_key feature ''geometry'') (\<lambda>geometry.
     and_then (py_getitem_key geometry ''type'') (\<lambda>geometry_type.
       if geometry_type \<noteq> JStr ''MultiLineString'' then Inr acc
       else
         and_then (py_getitem_key geometry ''coordinates'') (\<lambda>coordinates.
         and_then (py_iter coordinates) (\<lambda>line_strings.
           for_each (process_line_string cable_name cable_id)
             (enumerate 0 line_strings) acc))))))))"

text \<open>Lines 124 to 165: both lists start empty and every feature is visited in order.\<close>

definition analyze :: "json \<Rightarrow> error + intersection list \<times> nearby list" where
  "analyze infrastructure_data =
     and_then (py_getitem_key infrastructure_data ''features'') (\<lambda>features.
     and_then (py_iter features) (\<lambda>fs.
       for_each process_feature fs ([], [])))"

section \<open>The report of \<^verbatim>\<open>check_intersections\<close> (lines 167 to 203) and the process\<close>

text \<open>
  Every \<^verbatim>\<open>print\<close> call is one output event carrying the values it formats.
  \<^verbatim>\<open>traceback.print_exc\<close> writes to standard error.
\<close>

datatype out_event =
    Banner
  | TrajectoryHeader
  | TrajectorySegmentLine nat LineSegment
  | BlankLine
  | ResultsHeader
  | FoundIntersections nat
  | IntersectionCable json json
  | IntersectionTrajectory nat
  | IntersectionIndex nat
  | NoIntersections
  | FoundNearby nat
  | NearbyCable json json
  | NearbyDistanceKm real
  | AnalysisComplete
  | ErrorMessage error
  | Traceback error

text \<open>
  The world a run sees: what opening and loading
  \<^verbatim>\<open>../../infrastructure/internet_cables_coordinates.json\<close> gives (the loaded value
  or the exception), and what has been written so far.
\<close>

record world =
  infra_file :: "error + json"
  stdout :: "out_event list"
  stderr :: "out_event list"

definition print_lines :: "out_event list \<Rightarrow> world \<Rightarrow> world" where
  "print_lines evs w = w\<lparr>stdout := stdout w @ evs\<rparr>"

text \<open>Lines 172 to 176: a key is inserted only when it is absent.\<close>

definition intersection_key :: "(json \<Rightarrow> string) \<Rightarrow> intersection \<Rightarrow> string" where
  "intersection_key fmt r =
     py_str fmt (cableId r) @ ''-'' @ string_of_nat (segmentIndex r)"

definition unique_cables_of ::
  "(json \<Rightarrow> string) \<Rightarrow> intersection list \<Rightarrow> (string \<times> intersection) list" where
  "unique_cables_of fmt found =
     fold (\<lambda>r unique_cables.
             let key = intersection_key fmt r
             in if map_of unique_cables key = None then unique_cables @ [(key, r)]
                else unique_cables)
          found []"

text \<open>Lines 189 to 192: the body of the loop over \<^verbatim>\<open>nearby_cables\<close>.\<close>

definition nearby_step ::
  "nearby \<Rightarrow> (pykey \<times> nearby) list \<Rightarrow> error + (pykey \<times> nearby) list" where
  "nearby_step cable unique_nearby =
     and_then (dict_key (cableId cable)) (\<lambda>key.
       case map_of unique_nearby key of
         None \<Rightarrow> Inr (dict_set key cable unique_nearby)
       | Some kept \<Rightarrow>
           if minDistance kept > minDistance cable
           then Inr (dict_set key cable unique_nearby)
           else Inr unique_nearby)"

definition report ::
  "(json \<Rightarrow> string) \<Rightarrow> intersection list \<times> nearby list \<Rightarrow> world \<Rightarrow>
   (error + result) \<times> world" where
  "report fmt found w =
     (let (found_intersections, nearby_cables) = found;
          w1 = print_lines [ResultsHeader] w;
          unique_cables =
            (if found_intersections \<noteq> [] then unique_cables_of fmt found_intersections else []);
          w2 =
            (if found_intersections \<noteq> []
             then print_lines
                    (FoundIntersections (length found_intersections) #
                     concat (map (\<lambda>r. [IntersectionCable (cableName r) (cableId r),
                                        IntersectionTrajectory (trajectorySegment r),
                                        IntersectionIndex (segmentIndex r)])
                                 (map snd unique_cables))) w1
             else print_lines [NoIntersections] w1);
          returned = (if found_intersections \<noteq> [] then map snd unique_cables else [])
      in if nearby_cables \<noteq> [] then
           (let w3 = print_lines [FoundNearby (length nearby_cables)] w2
            in case for_each nearby_step nearby_cables [] of
                 Inl e \<Rightarrow> (Inl e, w3)
               | Inr unique_nearby \<Rightarrow>
                   (Inr \<lparr>intersections = returned, nearbyCables = map snd unique_nearby\<rparr>,
                    print_lines
                      (concat (map (\<lambda>cable. [NearbyCable (cableName cable) (cableId cable),
                                              NearbyDistanceKm (minDistance cable * 111)])
                                   (map snd unique_nearby))) w3))
         else (Inr \<lparr>intersections = returned, nearbyCables = []\<rparr>, w2))"

definition check_intersections ::
  "(json \<Rightarrow> string) \<Rightarrow> world \<Rightarrow> (error + result) \<times> world" where
  "check_intersections fmt w =
     (let w1 = print_lines [Banner] w
      in case infra_file w1 of
           Inl e \<Rightarrow> (Inl e, w1)
         | Inr infrastructure_data \<Rightarrow>
             (let w2 = print_lines
                         (TrajectoryHeader #
                          map (\<lambda>(i, seg). TrajectorySegmentLine (i + 1) seg)
                              (enumerate 0 trajectory_segments) @
                          [BlankLine]) w1
              in case analyze infrastructure_data of
                   Inl e \<Rightarrow> (Inl e, w2)
                 | Inr found \<Rightarrow> report fmt found w2))"

text \<open>
  Lines 206 to 214: the script run as a program. The result is the exit status and the
  world left behind.
\<close>

definition main :: "(json \<Rightarrow> string) \<Rightarrow> world \<Rightarrow> nat \<times> world" where
  "main fmt w =
     (case check_intersections fmt w of
        (Inr res, w') \<Rightarrow> (0, print_lines [AnalysisComplete] w')
      | (Inl e, w') \<Rightarrow>
          (1, (print_lines [ErrorMessage e] w')\<lparr>stderr := stderr w' @ [Traceback e]\<rparr>))"

section \<open>Notions the specification speaks of\<close>

subsection \<open>Plane geometry\<close>









subsection \<open>The cable segments of an input, in iteration order\<close>

text \<open>
  The segments of one line-string, of one feature (with the cable's name, its id and the
  index of the line-string) and of the whole input: features in order, their line-strings
  in order, consecutive positions in order. A part the script cannot read has no segments.
\<close>

definition line_string_segments :: "json \<Rightarrow> LineSegment list" where
  "line_string_segments line_string =
     (case py_len line_string of
        Inl e \<Rightarrow> []
      | Inr n \<Rightarrow>
          concat (map (\<lambda>i. case cable_segment_at line_string i of
                              Inl e \<Rightarrow> [] | Inr s \<Rightarrow> [s])
                      [0..<n - 1]))"

definition feature_segments :: "json \<Rightarrow> (json \<times> json \<times> nat \<times> LineSegment) list" where
  "feature_segments feature =
     (case and_then (py_getitem_key feature ''properties'') (\<lambda>properties.
           and_then (py_getitem_key properties ''name'') (\<lambda>cable_name.
           and_then (py_getitem_key properties ''id'') (\<lambda>cable_id.
           and_then (py_getitem_key feature ''geometry'') (\<lambda>geometry.
           and_then (py_getitem_key geometry ''type'') (\<lambda>geometry_type.
             if geometry_type \<noteq> JStr ''MultiLineString'' then Inr []
             else
               and_then (py_getitem_key geometry ''coordinates'') (\<lambda>coordinates.
               and_then (py_iter coordinates) (\<lambda>line_strings.
                 Inr (concat (map (\<lambda>(seg_idx, line_string).
                                      map (\<lambda>s. (cable_name, cable_id, seg_idx, s))
                                          (line_string_segments line_string))
                                  (enumerate 0 line_strings)))))))))) of
        Inl e \<Rightarrow> []
      | Inr segs \<Rightarrow> segs)"







subsection \<open>Inputs used as examples\<close>

text \<open>A run that starts with nothing written and the given outcome of loading the file.\<close>

definition fresh_world :: "error + json \<Rightarrow> world" where
  "fresh_world loaded = \<lparr>infra_file = loaded, stdout = [], stderr = []\<rparr>"

definition feature_collection :: "json list \<Rightarrow> json" where
  "feature_collection fs = JObj [(''features'', JArr fs)]"

text \<open>
  A cable whose first position is the second trajectory point and which runs north from
  there: both trajectory segments touch it, and the second trajectory point lies on it.
\<close>

definition cable_through_waypoint :: json where
  "cable_through_waypoint =
     JObj [(''properties'', JObj [(''name'', JStr ''Cable A''), (''id'', JStr ''cable-a'')]),
           (''geometry'', JObj
              [(''type'', JStr ''MultiLineString''),
               (''coordinates'',
                  JArr [JArr [JArr [JNum 11.9667175, JNum 54.3310199],
                              JArr [JNum 11.9667175, JNum 54.4]]])])]"

text \<open>A point feature with a name and an id, and one with an id only.\<close>

definition named_point_feature :: json where
  "named_point_feature =
     JObj [(''properties'', JObj [(''name'', JStr ''Landing station''), (''id'', JStr ''ls-1'')]),
           (''geometry'', JObj [(''type'', JStr ''Point''),
                               (''coordinates'', JArr [JNum 12, JNum 54])])]"

definition unnamed_point_feature :: json where
  "unnamed_point_feature =
     JObj [(''properties'', JObj [(''id'', JStr ''ls-2'')]),
           (''geometry'', JObj [(''type'', JStr ''Point''),
                               (''coordinates'', JArr [JNum 12, JNum 54])])]"

section \<open>Facts about the geometry engine\<close>





lemma cross_product_same [simp]:
  "cross_product p p q = 0" "cross_product p q p = 0" "cross_product p q q = 0"
  by (simp_all add: cross_product_def)

lemma on_segment_endpoint [simp]: "on_segment p p r" "on_segment p r r"
  by (simp_all add: on_segment_def)

















section \<open>The geometry engine: what the specification claims\<close>








section \<open>Facts about the loops and the two dictionaries\<close>

lemma and_then_simps [simp]:
  "and_then (Inl e) f = Inl e"
  "and_then (Inr v) f = f v"
  by (simp_all add: and_then_def)






















lemma string_eq_pair:
  "(cableId x, segmentIndex x) = (cableId r, segmentIndex r) \<Longrightarrow>
   intersection_key fmt x = intersection_key fmt r"
  by (simp add: intersection_key_def)












lemma sqrt_less_iff_square: "0 < c \<Longrightarrow> sqrt x < c \<longleftrightarrow> x < c * c"
proof -
  assume c: "0 < c"
  then have "sqrt (c * c) = c" by simp
  then have "sqrt x < c \<longleftrightarrow> sqrt x < sqrt (c * c)" by simp
  then show ?thesis by (simp only: real_sqrt_less_iff)
qed

lemma sqrt_scaled_less_one: "0 < c \<Longrightarrow> sqrt x * c < 1 \<longleftrightarrow> x * (c * c) < 1"
proof -
  assume c: "0 < c"
  then have "sqrt x * c < 1 \<longleftrightarrow> sqrt x < 1 / c" by (simp add: field_simps)
  also have "\<dots> \<longleftrightarrow> x < (1 / c) * (1 / c)" using c by (simp add: sqrt_less_iff_square)
  also have "\<dots> \<longleftrightarrow> x * (c * c) < 1" using c by (simp add: field_simps)
  finally show ?thesis .
qed

section \<open>Facts about a run\<close>

lemma print_lines_fields [simp]:
  "infra_file (print_lines evs w) = infra_file w"
  "stdout (print_lines evs w) = stdout w @ evs"
  "stderr (print_lines evs w) = stderr w"
  by (simp_all add: print_lines_def)

lemma unique_cables_of_Nil [simp]: "unique_cables_of fmt [] = []"
  by (simp add: unique_cables_of_def)










lemma waypoint_analysis:
  "analyze (feature_collection [cable_through_waypoint]) =
     Inr ([\<lparr>cableName = JStr ''Cable A'', cableId = JStr ''cable-a'',
            segmentIndex = 0, trajectorySegment = 1\<rparr>,
           \<lparr>cableName = JStr ''Cable A'', cableId = JStr ''cable-a'',
            segmentIndex = 0, trajectorySegment = 2\<rparr>],
          [\<lparr>cableName = JStr ''Cable A'', cableId = JStr ''cable-a'', minDistance = 0,
            closestPoint = (11.9667175, 54.3310199)\<rparr>])"
  by (simp add: analyze_def feature_collection_def cable_through_waypoint_def
      process_feature_def process_line_string_def process_segment_def cable_segment_at_def
      coordinate_def enumerate_eq_zip check_trajectory_segments_def
      check_trajectory_points_def trajectory_segments_def trajectory_points_def
      segments_intersect_def cross_product_def on_segment_def
      point_to_segment_distance_def distance_def Let_def sqrt_scaled_less_one)

lemma waypoint_run:
  "fst (check_intersections (\<lambda>v. []) (fresh_world (Inr (feature_collection [cable_through_waypoint])))) =
     Inr \<lparr>intersections =
            [\<lparr>cableName = JStr ''Cable A'', cableId = JStr ''cable-a'',
              segmentIndex = 0, trajectorySegment = 1\<rparr>],
          nearbyCables =
            [\<lparr>cableName = JStr ''Cable A'', cableId = JStr ''cable-a'', minDistance = 0,
              closestPoint = (11.9667175, 54.3310199)\<rparr>]\<rparr>"
  by (simp add: check_intersections_def fresh_world_def waypoint_analysis report_def
      unique_cables_of_def intersection_key_def nearby_step_def Let_def)


section \<open>The analysis and its report: what the specification claims\<close>





subsection \<open>The point stored in a nearby record\<close>











subsection \<open>Features of another geometry\<close>

lemma for_each_skip:
  assumes "\<And>s. body x s = Inr s"
  shows "for_each body (before @ x # after) s = for_each body (before @ after) s"
  by (induction before arbitrary: s) (simp_all add: assms split: sum.splits)

lemma process_feature_other_geometry:
  assumes "py_getitem_key feature ''properties'' = Inr properties"
      and "py_getitem_key properties ''name'' = Inr cable_name"
      and "py_getitem_key properties ''id'' = Inr cable_id"
      and "py_getitem_key feature ''geometry'' = Inr geometry"
      and "py_getitem_key geometry ''type'' = Inr geometry_type"
      and "geometry_type \<noteq> JStr ''MultiLineString''"
  shows "process_feature feature acc = Inr acc"
  using assms by (simp add: process_feature_def)

text \<open>
  C7, as amended. A feature that carries \<open>properties.name\<close> and \<open>properties.id\<close> and
  whose geometry type is not \<open>MultiLineString\<close> is skipped without an exception: the
  loop body returns the two lists unchanged, the loop over the features gives the same
  outcome with and without the feature, and the feature has no cable segments.
\<close>

theorem non_multilinestring_skipped:
  assumes "py_getitem_key feature ''properties'' = Inr properties"
      and "py_getitem_key properties ''name'' = Inr cable_name"
      and "py_getitem_key properties ''id'' = Inr cable_id"
      and "py_getitem_key feature ''geometry'' = Inr geometry"
      and "py_getitem_key geometry ''type'' = Inr geometry_type"
      and "geometry_type \<noteq> JStr ''MultiLineString''"
  shows "process_feature feature acc = Inr acc \<and>
         for_each process_feature (before @ feature # after) acc =
           for_each process_feature (before @ after) acc \<and>
         analyze (feature_collection (before @ feature # after)) =
           analyze (feature_collection (before @ after)) \<and>
         feature_segments feature = []"
proof -
  note skip = process_feature_other_geometry [OF assms]
  have loop: "for_each process_feature (before @ feature # after) s =
      for_each process_feature (before @ after) s" for s
    by (rule for_each_skip) (rule skip)
  have "analyze (feature_collection (before @ feature # after)) =
      analyze (feature_collection (before @ after))"
    by (simp add: analyze_def feature_collection_def loop)
  moreover have "feature_segments feature = []"
    using assms by (simp add: feature_segments_def)
  ultimately show ?thesis using skip loop by blast
qed

theorem non_multilinestring_skipped_witness:
  "py_getitem_key named_point_feature ''properties'' =
     Inr (JObj [(''name'', JStr ''Landing station''), (''id'', JStr ''ls-1'')]) \<and>
   py_getitem_key named_point_feature ''geometry'' =
     Inr (JObj [(''type'', JStr ''Point''), (''coordinates'', JArr [JNum 12, JNum 54])]) \<and>
   JStr ''Point'' \<noteq> JStr ''MultiLineString'' \<and>
   process_feature named_point_feature ([], []) = Inr ([], []) \<and>
   analyze (feature_collection [named_point_feature, cable_through_waypoint]) =
     analyze (feature_collection [cable_through_waypoint])"
proof -
  have p: "py_getitem_key named_point_feature ''properties'' =
      Inr (JObj [(''name'', JStr ''Landing station''), (''id'', JStr ''ls-1'')])"
    and n: "py_getitem_key (JObj [(''name'', JStr ''Landing station''), (''id'', JStr ''ls-1'')])
      ''name'' = Inr (JStr ''Landing station'')"
    and i: "py_getitem_key (JObj [(''name'', JStr ''Landing station''), (''id'', JStr ''ls-1'')])
      ''id'' = Inr (JStr ''ls-1'')"
    and g: "py_getitem_key named_point_feature ''geometry'' =
      Inr (JObj [(''type'', JStr ''Point''), (''coordinates'', JArr [JNum 12, JNum 54])])"
    and t: "py_getitem_key (JObj [(''type'', JStr ''Point''),
        (''coordinates'', JArr [JNum 12, JNum 54])]) ''type'' = Inr (JStr ''Point'')"
    and d: "JStr ''Point'' \<noteq> JStr ''MultiLineString''"
    by (simp_all add: named_point_feature_def)
  from non_multilinestring_skipped [OF p n i g t d, of "([], [])" "[]" "[cable_through_waypoint]"]
  have "process_feature named_point_feature ([], []) = Inr ([], []) \<and>
      analyze (feature_collection [named_point_feature, cable_through_waypoint]) =
        analyze (feature_collection [cable_through_waypoint])"
    by simp
  with p g d show ?thesis by blast
qed

text \<open>
  C7 as stated fails: the name and the id are read before the geometry type is looked
  at (lines 129 and 130), so a point feature without \<open>properties.name\<close> raises KeyError
  and the process exits with status 1.
\<close>

theorem non_multilinestring_unnamed_counterexample:
  "py_getitem_key unnamed_point_feature ''geometry'' =
     Inr (JObj [(''type'', JStr ''Point''), (''coordinates'', JArr [JNum 12, JNum 54])]) \<and>
   py_getitem_key (JObj [(''type'', JStr ''Point''), (''coordinates'', JArr [JNum 12, JNum 54])])
     ''type'' = Inr (JStr ''Point'') \<and>
   JStr ''Point'' \<noteq> JStr ''MultiLineString'' \<and>
   process_feature unnamed_point_feature ([], []) = Inl (KeyError (JStr ''name'')) \<and>
   fst (check_intersections (\<lambda>v. [])
          (fresh_world (Inr (feature_collection [unnamed_point_feature])))) =
     Inl (KeyError (JStr ''name'')) \<and>
   fst (main (\<lambda>v. []) (fresh_world (Inr (feature_collection [unnamed_point_feature])))) = 1"
  by (simp add: unnamed_point_feature_def process_feature_def check_intersections_def
      main_def fresh_world_def feature_collection_def analyze_def Let_def)


subsection \<open>The process: exit status and effects\<close>

lemma report_outcome:
  "fst (report fmt found w) = fst (report fmt found w')"
proof (cases "for_each nearby_step (snd found) []")
  case (Inl e)
  then show ?thesis by (simp add: report_def Let_def case_prod_unfold)
next
  case (Inr d)
  then show ?thesis by (simp add: report_def Let_def case_prod_unfold)
qed

lemma report_world:
  "infra_file (snd (report fmt found w)) = infra_file w"
  "stderr (snd (report fmt found w)) = stderr w"
  "\<exists>printed. stdout (snd (report fmt found w)) = stdout w @ printed"
proof -
  show "infra_file (snd (report fmt found w)) = infra_file w"
    by (cases "for_each nearby_step (snd found) []")
      (simp_all add: report_def Let_def case_prod_unfold)
  show "stderr (snd (report fmt found w)) = stderr w"
    by (cases "for_each nearby_step (snd found) []")
      (simp_all add: report_def Let_def case_prod_unfold)
  show "\<exists>printed. stdout (snd (report fmt found w)) = stdout w @ printed"
    by (cases "for_each nearby_step (snd found) []")
      (simp_all add: report_def Let_def case_prod_unfold)
qed

lemma check_intersections_outcome:
  "fst (check_intersections fmt w) =
     (case infra_file w of
        Inl e \<Rightarrow> Inl e
      | Inr infrastructure_data \<Rightarrow>
          (case analyze infrastructure_data of
             Inl e \<Rightarrow> Inl e
           | Inr found \<Rightarrow> fst (report fmt found (fresh_world (infra_file w)))))"
proof (cases "infra_file w")
  case (Inl e)
  then show ?thesis by (simp add: check_intersections_def Let_def)
next
  case (Inr infrastructure_data)
  show ?thesis
  proof (cases "analyze infrastructure_data")
    case (Inl e)
    with Inr show ?thesis by (simp add: check_intersections_def Let_def)
  next
    case found: (Inr found)
    with Inr show ?thesis
      by (simp add: check_intersections_def Let_def)
        (rule report_outcome)
  qed
qed

lemma check_intersections_world:
  "infra_file (snd (check_intersections fmt w)) = infra_file w"
  "stderr (snd (check_intersections fmt w)) = stderr w"
  "\<exists>printed. stdout (snd (check_intersections fmt w)) = stdout w @ printed"
proof -
  let ?w2 = "print_lines
      (TrajectoryHeader #
       map (\<lambda>(i, seg). TrajectorySegmentLine (i + 1) seg) (enumerate 0 trajectory_segments) @
       [BlankLine]) (print_lines [Banner] w)"
  have run: "snd (check_intersections fmt w) =
      (case infra_file w of
         Inl e \<Rightarrow> print_lines [Banner] w
       | Inr infrastructure_data \<Rightarrow>
           (case analyze infrastructure_data of
              Inl e \<Rightarrow> ?w2
            | Inr found \<Rightarrow> snd (report fmt found ?w2)))"
    by (simp add: check_intersections_def Let_def split: sum.splits)
  show "infra_file (snd (check_intersections fmt w)) = infra_file w"
    unfolding run by (simp add: report_world split: sum.splits)
  show "stderr (snd (check_intersections fmt w)) = stderr w"
    unfolding run by (simp add: report_world split: sum.splits)
  show "\<exists>printed. stdout (snd (check_intersections fmt w)) = stdout w @ printed"
  proof (cases "infra_file w")
    case (Inl e)
    then show ?thesis unfolding run by simp
  next
    case (Inr infrastructure_data)
    show ?thesis
    proof (cases "analyze infrastructure_data")
      case (Inl e)
      with Inr show ?thesis unfolding run by simp
    next
      case found: (Inr found)
      from report_world(3) [of fmt found ?w2] obtain printed where
        "stdout (snd (report fmt found ?w2)) = stdout ?w2 @ printed" by blast
      with Inr found show ?thesis unfolding run by simp
    qed
  qed
qed


lemma missing_file_run:
  "check_intersections fmt (fresh_world (Inl e)) =
     (Inl e, \<lparr>infra_file = Inl e, stdout = [Banner], stderr = []\<rparr>)"
  by (simp add: check_intersections_def fresh_world_def print_lines_def Let_def)

text \<open>
  C8. When \<^verbatim>\<open>check_intersections\<close> raises an exception, the handler prints its message
  and its stack trace and the process exits with status 1; when it returns, the process
  prints the closing line and exits with status 0. A failure to open or to load the file
  (a missing file, malformed JSON) is such an exception.
\<close>

theorem top_level_handler:
  "(\<forall>e. fst (check_intersections fmt w) = Inl e \<longrightarrow>
      fst (main fmt w) = 1 \<and>
      stdout (snd (main fmt w)) = stdout (snd (check_intersections fmt w)) @ [ErrorMessage e] \<and>
      stderr (snd (main fmt w)) = stderr w @ [Traceback e]) \<and>
   (\<forall>res. fst (check_intersections fmt w) = Inr res \<longrightarrow>
      fst (main fmt w) = 0 \<and>
      stdout (snd (main fmt w)) = stdout (snd (check_intersections fmt w)) @ [AnalysisComplete] \<and>
      stderr (snd (main fmt w)) = stderr w) \<and>
   (\<forall>e. infra_file w = Inl e \<longrightarrow> fst (check_intersections fmt w) = Inl e)"
proof (intro conjI allI impI)
  fix e assume e: "fst (check_intersections fmt w) = Inl e"
  then obtain w' where run: "check_intersections fmt w = (Inl e, w')"
    by (cases "check_intersections fmt w") simp
  from run check_intersections_world(2) [of fmt w] have err: "stderr w' = stderr w" by simp
  show "fst (main fmt w) = 1" by (simp add: main_def run)
  show "stdout (snd (main fmt w)) = stdout (snd (check_intersections fmt w)) @ [ErrorMessage e]"
    by (simp add: main_def run)
  show "stderr (snd (main fmt w)) = stderr w @ [Traceback e]"
    by (simp add: main_def run err)
next
  fix res assume "fst (check_intersections fmt w) = Inr res"
  then obtain w' where run: "check_intersections fmt w = (Inr res, w')"
    by (cases "check_intersections fmt w") simp
  from run check_intersections_world(2) [of fmt w] have err: "stderr w' = stderr w" by simp
  show "fst (main fmt w) = 0" by (simp add: main_def run)
  show "stdout (snd (main fmt w)) = stdout (snd (check_intersections fmt w)) @ [AnalysisComplete]"
    by (simp add: main_def run)
  show "stderr (snd (main fmt w)) = stderr w"
    by (simp add: main_def run err)
next
  fix e assume "infra_file w = Inl e"
  then show "fst (check_intersections fmt w) = Inl e"
    by (simp add: check_intersections_outcome)
qed

theorem top_level_handler_witness:
  "infra_file (fresh_world (Inl (OSError ''No such file or directory''))) =
     Inl (OSError ''No such file or directory'') \<and>
   fst (check_intersections (\<lambda>v. []) (fresh_world (Inl (OSError ''No such file or directory'')))) =
     Inl (OSError ''No such file or directory'') \<and>
   fst (main (\<lambda>v. []) (fresh_world (Inl (OSError ''No such file or directory'')))) = 1 \<and>
   stdout (snd (main (\<lambda>v. []) (fresh_world (Inl (OSError ''No such file or directory''))))) =
     [Banner, ErrorMessage (OSError ''No such file or directory'')] \<and>
   stderr (snd (main (\<lambda>v. []) (fresh_world (Inl (OSError ''No such file or directory''))))) =
     [Traceback (OSError ''No such file or directory'')] \<and>
   fst (main (\<lambda>v. []) (fresh_world (Inr (feature_collection [cable_through_waypoint])))) = 0"
proof -
  let ?missing = "fresh_world (Inl (OSError ''No such file or directory''))"
  let ?good = "fresh_world (Inr (feature_collection [cable_through_waypoint]))"
  have loaded: "infra_file ?missing = Inl (OSError ''No such file or directory'')"
    by (simp add: fresh_world_def)
  from top_level_handler [of "\<lambda>v. []" ?missing] loaded
  have raised: "fst (check_intersections (\<lambda>v. []) ?missing) =
      Inl (OSError ''No such file or directory'')"
    by blast
  with top_level_handler [of "\<lambda>v. []" ?missing]
  have "fst (main (\<lambda>v. []) ?missing) = 1 \<and>
      stdout (snd (main (\<lambda>v. []) ?missing)) =
        stdout (snd (check_intersections (\<lambda>v. []) ?missing)) @
        [ErrorMessage (OSError ''No such file or directory'')] \<and>
      stderr (snd (main (\<lambda>v. []) ?missing)) =
        stderr ?missing @ [Traceback (OSError ''No such file or directory'')]"
    by blast
  then have bad: "fst (main (\<lambda>v. []) ?missing) = 1 \<and>
      stdout (snd (main (\<lambda>v. []) ?missing)) =
        [Banner, ErrorMessage (OSError ''No such file or directory'')] \<and>
      stderr (snd (main (\<lambda>v. []) ?missing)) =
        [Traceback (OSError ''No such file or directory'')]"
    by (simp add: missing_file_run) (simp add: fresh_world_def)
  from top_level_handler [of "\<lambda>v. []" ?good] waypoint_run
  have "fst (main (\<lambda>v. []) ?good) = 0" by blast
  with loaded raised bad show ?thesis by blast
qed



end
